theory Spec2Isabelle
  imports Main "HOL-Library.Finite_Map" "HOL-Library.Word"
begin

section \<open>The host registry of the renter's hostdb (modules/renter/hostdb/hostentry.go)\<close>

text \<open>
  The file holds the registry slice of the host database: the entry type, insertion and
  removal, the public lookup, the two sampling wrappers and the liveness check. The
  embedding is sequential state passing: every method of \<open>*HostDB\<close> takes the database
  and returns the database it leaves behind, next to its Go result. A run-time panic of
  the Go code (a read through a nil entry pointer, a division by zero) is a value of
  type \<open>panic\<close> on the left of a sum.

  Calls that leave the file (the address validator, the scan queue, the sampler, the
  synchronous scan, the logger) are parameters of the function that makes them; each is
  called at most once per run, so a theorem about every parameter is a theorem about
  every outcome of that call, a random draw included. They are taken to return.
  The reader/writer mutex \<open>hdb.mu\<close> is not part of the state: on a single call path a
  matched lock/unlock pair changes nothing, and what other goroutines do while
  \<open>IsOffline\<close> scans without the lock is part of the state that the scan parameter
  returns.
\<close>

subsection \<open>Data\<close>

type_synonym NetAddress = string

text \<open>\<open>types.Currency\<close>: a non-negative integer of unbounded size.\<close>
type_synonym Currency = nat

text \<open>\<open>types.BlockHeight\<close>: an unsigned 64-bit counter.\<close>
type_synonym BlockHeight = "64 word"

text \<open>
  \<open>time.Time\<close> as the number of nanoseconds after Go's zero \<open>Time\<close>, so that the zero
  value of the type is \<open>0\<close>; \<open>time.Duration\<close> is a signed 64-bit count of nanoseconds.
\<close>
type_synonym Time = int
type_synonym Duration = int

text \<open>A Go pointer: nil, or the object it points to.\<close>
datatype 'a ptr = NilPtr | Ptr 'a

datatype panic = NilPointerDereference | DivisionByZero

text \<open>A call of the logger: the format string and its arguments as printed by \<open>%v\<close>.\<close>
datatype logCall = Debugf string "string list" | Printf string "string list"

text \<open>\<open>types.SiaPublicKey\<close>; the file reads its \<open>Key\<close> bytes only.\<close>
record SiaPublicKey =
  Key :: "8 word list"

text \<open>
  \<open>modules.HostDBEntry\<close>, declared outside this file: the fields the file reads, and
  the host's remaining advertised settings as one opaque field.
\<close>
record modules_HostDBEntry =
  NetAddress :: NetAddress
  PublicKey :: SiaPublicKey
  ContractPrice :: Currency
  OtherSettings :: string

text \<open>The zero value \<open>modules.HostDBEntry{}\<close>.\<close>
definition zeroHostDBEntry :: modules_HostDBEntry where
  "zeroHostDBEntry =
     \<lparr>NetAddress = [], PublicKey = \<lparr>Key = []\<rparr>, ContractPrice = 0, OtherSettings = []\<rparr>"

text \<open>\<open>type hostEntry struct\<close> (lines 12-20).\<close>
record hostEntry =
  HostDBEntry :: modules_HostDBEntry
  FirstSeen :: BlockHeight
  Weight :: Currency
  Reliability :: Currency
  LastScanned :: Time
  LastSeen :: Time

text \<open>
  The fields of \<open>HostDB\<close> that the file touches. The struct itself is declared outside
  this file: \<open>'n\<close> is the type of the sampler's node pointers (the values of
  \<open>activeHosts\<close>), \<open>'t\<close> the state of the sampler's tree that \<open>removeNode\<close> changes,
  \<open>'q\<close> the state of the scan queue that \<open>queueHostEntry\<close> changes. The maps are
  finite maps; \<open>allHosts\<close> maps an address to a pointer, which may be nil. No function
  of the file writes through an entry pointer, so a pointer carries its entry.
\<close>
record ('n, 't, 'q) HostDB =
  log :: "logCall list"
  hostTree :: 't
  activeHosts :: "(NetAddress, 'n) fmap"
  allHosts :: "(NetAddress, hostEntry ptr) fmap"
  scanQueue :: 'q
  blockHeight :: BlockHeight

subsection \<open>Time and currency\<close>

definition minDuration :: Duration where
  "minDuration = - (2 ^ 63)"

definition maxDuration :: Duration where
  "maxDuration = 2 ^ 63 - 1"

text \<open>
  \<open>time.Since(t)\<close> is \<open>time.Now().Sub(t)\<close>; \<open>Sub\<close> returns the difference, or the
  largest (smallest) duration when the difference does not fit. The reading of the clock
  is the first argument.
\<close>
definition Since :: "Time \<Rightarrow> Time \<Rightarrow> Duration" where
  "Since now t =
     (let d = now - t in
      if d < minDuration then minDuration
      else if maxDuration < d then maxDuration
      else d)"

text \<open>
  Modelled from the spec: the constant \<open>uptimeThreshold\<close> is declared outside this
  file; the staleness threshold is three days (so says the doc comment of \<open>IsOffline\<close>
  too), here in nanoseconds.
\<close>
definition uptimeThreshold :: Duration where
  "uptimeThreshold = 3 * 24 * 3600 * 1000000000"

text \<open>
  Modelled from the spec: \<open>types.Currency\<close> is declared outside this file; prices are
  summed (\<open>Add\<close>) and the sum is divided by the sample size (\<open>Div64\<close>), an unsigned
  64-bit divisor; the division of an unbounded integer by zero panics.
\<close>
definition Add :: "Currency \<Rightarrow> Currency \<Rightarrow> Currency" where
  "Add x y = x + y"

definition Div64 :: "Currency \<Rightarrow> 64 word \<Rightarrow> panic + Currency" where
  "Div64 x y = (if y = 0 then Inl DivisionByZero else Inr (x div unat y))"

subsection \<open>insertHost (lines 27-50)\<close>

text \<open>
  The parameters are the address validator \<open>NetAddress.IsValid\<close> (\<open>None\<close> is the nil
  error, \<open>Some\<close> an error with its message), the constant \<open>DefaultReliability\<close> and
  \<open>queueHostEntry\<close>, which receives the pointer to the new entry. The struct literal
  leaves \<open>Weight\<close>, \<open>LastScanned\<close> and \<open>LastSeen\<close> at their zero values. Reading
  \<open>knownHost.PublicKey\<close> through a nil pointer found in the map panics.
\<close>
definition insertHost ::
  "(NetAddress \<Rightarrow> string option) \<Rightarrow> Currency \<Rightarrow> (hostEntry ptr \<Rightarrow> 'q \<Rightarrow> 'q) \<Rightarrow>
   ('n, 't, 'q) HostDB \<Rightarrow> modules_HostDBEntry \<Rightarrow> panic + ('n, 't, 'q) HostDB" where
  "insertHost IsValid DefaultReliability queueHostEntry hdb host =
     (case IsValid (NetAddress host) of
        Some err \<Rightarrow>
          Inr (hdb\<lparr>log := log hdb @
                 [Debugf ''WARN: host '%v' has an invalid NetAddress: %v'' [NetAddress host, err]]\<rparr>)
      | None \<Rightarrow>
          (let h = Ptr \<lparr>HostDBEntry = host, FirstSeen = blockHeight hdb, Weight = 0,
                       Reliability = DefaultReliability, LastScanned = 0, LastSeen = 0\<rparr>;
               stored = hdb\<lparr>allHosts := fmupd (NetAddress host) h (allHosts hdb),
                            scanQueue := queueHostEntry h (scanQueue hdb)\<rparr>
           in case fmlookup (allHosts hdb) (NetAddress host) of
                None \<Rightarrow> Inr stored
              | Some NilPtr \<Rightarrow> Inl NilPointerDereference
              | Some (Ptr knownHost) \<Rightarrow>
                  if Key (PublicKey host) = Key (PublicKey (HostDBEntry knownHost))
                  then Inr hdb
                  else Inr stored))"

subsection \<open>removeHost (lines 53-65)\<close>

text \<open>
  \<open>removeNode\<close> is the sampler's removal of a node from its tree. The result is the
  returned error (always nil, \<open>None\<close>) and the database.
\<close>
definition removeHost ::
  "('n \<Rightarrow> 't \<Rightarrow> 't) \<Rightarrow> ('n, 't, 'q) HostDB \<Rightarrow> NetAddress \<Rightarrow> string option \<times> ('n, 't, 'q) HostDB" where
  "removeHost removeNode hdb addr =
     (let hdb1 = (case fmlookup (activeHosts hdb) addr of
                    Some node \<Rightarrow> hdb\<lparr>hostTree := removeNode node (hostTree hdb),
                                     activeHosts := fmdrop addr (activeHosts hdb)\<rparr>
                  | None \<Rightarrow> hdb)
      in (None, hdb1\<lparr>allHosts := fmdrop addr (allHosts hdb1)\<rparr>))"

subsection \<open>Host (lines 69-77)\<close>

definition Host :: "('n, 't, 'q) HostDB \<Rightarrow> NetAddress \<Rightarrow> modules_HostDBEntry \<times> bool" where
  "Host hdb addr =
     (case fmlookup (allHosts hdb) addr of
        None \<Rightarrow> (zeroHostDBEntry, False)
      | Some NilPtr \<Rightarrow> (zeroHostDBEntry, False)
      | Some (Ptr entry) \<Rightarrow> (HostDBEntry entry, True))"

subsection \<open>ActiveHosts (lines 81-89) and AverageContractPrice (lines 104-116)\<close>

text \<open>
  \<open>RandomHosts\<close> is the sampler's draw: it gets the number of hosts wanted (a Go
  \<open>int\<close>), the excluded addresses (nil is the empty list) and the database, and returns
  the sample and the database it leaves. \<open>len\<close> of a map is the number of its keys.
\<close>
definition ActiveHosts ::
  "(int \<Rightarrow> NetAddress list \<Rightarrow> ('n, 't, 'q) HostDB \<Rightarrow> modules_HostDBEntry list \<times> ('n, 't, 'q) HostDB) \<Rightarrow>
   ('n, 't, 'q) HostDB \<Rightarrow> modules_HostDBEntry list \<times> ('n, 't, 'q) HostDB" where
  "ActiveHosts RandomHosts hdb =
     (let numHosts = int (fcard (fmdom (activeHosts hdb)));
          sortedHosts = RandomHosts numHosts [] hdb
      in sortedHosts)"

text \<open>
  The loop over the sample is a fold from the zero price; \<open>uint64(len(hosts))\<close>
  converts the length to the divisor's type.
\<close>
definition AverageContractPrice ::
  "(int \<Rightarrow> NetAddress list \<Rightarrow> ('n, 't, 'q) HostDB \<Rightarrow> modules_HostDBEntry list \<times> ('n, 't, 'q) HostDB) \<Rightarrow>
   ('n, 't, 'q) HostDB \<Rightarrow> panic + Currency \<times> ('n, 't, 'q) HostDB" where
  "AverageContractPrice RandomHosts hdb =
     (let totalPrice = 0;
          sampleSize = 18;
          (hosts, hdb') = RandomHosts sampleSize [] hdb
      in if length hosts = 0 then Inr (totalPrice, hdb')
         else (case Div64 (fold (\<lambda>host total. Add total (ContractPrice host)) hosts totalPrice)
                          (word_of_nat (length hosts)) of
                 Inl p \<Rightarrow> Inl p
               | Inr avg \<Rightarrow> Inr (avg, hdb')))"

subsection \<open>IsOffline (lines 123-157)\<close>

text \<open>
  \<open>managedScanHost\<close> is the synchronous scan, run without the lock: it gets the entry
  pointer and the database and returns the database as the second lookup finds it.
  \<open>now1\<close> and \<open>now2\<close> are the readings of the clock in the two calls of \<open>time.Since\<close>
  (lines 136 and 156). Reading \<open>entry.LastSeen\<close> through a nil pointer found in the
  map panics.
\<close>
definition IsOffline ::
  "(hostEntry ptr \<Rightarrow> ('n, 't, 'q) HostDB \<Rightarrow> ('n, 't, 'q) HostDB) \<Rightarrow> Time \<Rightarrow> Time \<Rightarrow>
   ('n, 't, 'q) HostDB \<Rightarrow> NetAddress \<Rightarrow> panic + bool \<times> ('n, 't, 'q) HostDB" where
  "IsOffline managedScanHost now1 now2 hdb addr =
     (case fmlookup (allHosts hdb) addr of
        None \<Rightarrow> Inr (False, hdb)
      | Some NilPtr \<Rightarrow> Inl NilPointerDereference
      | Some (Ptr entry) \<Rightarrow>
          (let lastSeen = LastSeen entry; lastScanned = LastScanned entry
           in if Since now1 lastScanned > uptimeThreshold then
                (let hdb' = managedScanHost (Ptr entry) hdb
                 in case fmlookup (allHosts hdb') addr of
                      None \<Rightarrow>
                        Inr (False, hdb'\<lparr>log := log hdb' @
                               [Printf ''WARN: no entry in allHosts for %v immediately after scanning''
                                  [addr]]\<rparr>)
                    | Some NilPtr \<Rightarrow> Inl NilPointerDereference
                    | Some (Ptr entry') \<Rightarrow> Inr (Since now2 (LastSeen entry') > uptimeThreshold, hdb'))
              else Inr (Since now2 lastSeen > uptimeThreshold, hdb)))"

subsection \<open>A concrete database\<close>

text \<open>
  One known, active host; candidates that repeat it, change its key, are new, or carry an
  address the validator rejects; a sampler that returns the first hosts of a fixed list;
  a scan during which the registry is emptied by a concurrent removal.
\<close>

definition ex_host :: modules_HostDBEntry where
  "ex_host = \<lparr>NetAddress = ''a.example:9982'', PublicKey = \<lparr>Key = [1, 2]\<rparr>,
              ContractPrice = 10, OtherSettings = []\<rparr>"

definition ex_host_rekeyed :: modules_HostDBEntry where
  "ex_host_rekeyed = \<lparr>NetAddress = ''a.example:9982'', PublicKey = \<lparr>Key = [1, 3]\<rparr>,
                      ContractPrice = 12, OtherSettings = []\<rparr>"

definition ex_host_new :: modules_HostDBEntry where
  "ex_host_new = \<lparr>NetAddress = ''b.example:9982'', PublicKey = \<lparr>Key = [7]\<rparr>,
                  ContractPrice = 30, OtherSettings = []\<rparr>"

definition ex_host_invalid :: modules_HostDBEntry where
  "ex_host_invalid = \<lparr>NetAddress = [], PublicKey = \<lparr>Key = [5]\<rparr>,
                      ContractPrice = 1, OtherSettings = []\<rparr>"

definition ex_entry :: hostEntry where
  "ex_entry = \<lparr>HostDBEntry = ex_host, FirstSeen = 3, Weight = 7, Reliability = 20,
               LastScanned = 100, LastSeen = 90\<rparr>"

definition ex_hdb :: "(nat, nat list, hostEntry ptr list) HostDB" where
  "ex_hdb = \<lparr>log = [], hostTree = [1], activeHosts = fmupd ''a.example:9982'' 1 fmempty,
             allHosts = fmupd ''a.example:9982'' (Ptr ex_entry) fmempty,
             scanQueue = [], blockHeight = 9\<rparr>"

definition ex_hdb_nil :: "(nat, nat list, hostEntry ptr list) HostDB" where
  "ex_hdb_nil = ex_hdb\<lparr>allHosts := fmupd ''c.example:9982'' NilPtr (allHosts ex_hdb)\<rparr>"

definition ex_IsValid :: "NetAddress \<Rightarrow> string option" where
  "ex_IsValid addr = (if addr = [] then Some ''missing port in address'' else None)"

definition ex_RandomHosts ::
  "int \<Rightarrow> NetAddress list \<Rightarrow> (nat, nat list, hostEntry ptr list) HostDB \<Rightarrow>
   modules_HostDBEntry list \<times> (nat, nat list, hostEntry ptr list) HostDB" where
  "ex_RandomHosts n exclude hdb = (take (nat n) [ex_host, ex_host_new], hdb)"

definition ex_scan_removed ::
  "hostEntry ptr \<Rightarrow> (nat, nat list, hostEntry ptr list) HostDB \<Rightarrow>
   (nat, nat list, hostEntry ptr list) HostDB" where
  "ex_scan_removed entry hdb = hdb\<lparr>allHosts := fmempty\<rparr>"

section \<open>Properties\<close>

subsection \<open>Auxiliary facts\<close>

lemma uptimeThreshold_range: "minDuration \<le> uptimeThreshold" "uptimeThreshold < maxDuration"
  by (simp_all add: minDuration_def maxDuration_def uptimeThreshold_def)

text \<open>The threshold lies inside the range of durations, so saturation never decides the test.\<close>
lemma Since_gt_uptimeThreshold:
  "uptimeThreshold < Since now t \<longleftrightarrow> uptimeThreshold < now - t"
  using uptimeThreshold_range by (auto simp: Since_def Let_def)

lemma fold_Add_acc:
  "fold (\<lambda>host total. Add total (ContractPrice host)) hosts acc =
     acc + sum_list (map ContractPrice hosts)"
  by (induction hosts arbitrary: acc) (simp_all add: Add_def)

lemma Div64_length:
  assumes "0 < n" "n < 2 ^ 63"
  shows "Div64 x (word_of_nat n) = Inr (x div n)"
proof -
  have "n < (2::nat) ^ 64" using assms(2) by simp
  then have u: "unat (word_of_nat n :: 64 word) = n"
    by (simp add: unat_of_nat)
  with assms(1) have "(word_of_nat n :: 64 word) \<noteq> 0"
    by (metis unat_0 less_numeral_extra(3))
  with u show ?thesis by (simp add: Div64_def)
qed

lemma fmdrop_absent: "fmlookup m k = None \<Longrightarrow> fmdrop k m = m"
  by (rule fmap_ext) simp

lemma insertHost_known_equal:
  assumes "fmlookup (allHosts hdb) (NetAddress host) = Some (Ptr knownHost)"
    and "Key (PublicKey host) = Key (PublicKey (HostDBEntry knownHost))"
  shows "insertHost IsValid DefaultReliability queueHostEntry hdb host =
           Inr (case IsValid (NetAddress host) of
                  None \<Rightarrow> hdb
                | Some err \<Rightarrow> hdb\<lparr>log := log hdb @
                    [Debugf ''WARN: host '%v' has an invalid NetAddress: %v''
                       [NetAddress host, err]]\<rparr>)"
  using assms by (simp add: insertHost_def split: option.splits)

lemma insertHost_stores:
  assumes "IsValid (NetAddress host) = None"
    and "fmlookup (allHosts hdb) (NetAddress host) = None \<or>
         (\<exists>knownHost. fmlookup (allHosts hdb) (NetAddress host) = Some (Ptr knownHost) \<and>
            Key (PublicKey host) \<noteq> Key (PublicKey (HostDBEntry knownHost)))"
  shows "insertHost IsValid DefaultReliability queueHostEntry hdb host =
           Inr (hdb\<lparr>allHosts :=
                       fmupd (NetAddress host)
                         (Ptr \<lparr>HostDBEntry = host, FirstSeen = blockHeight hdb, Weight = 0,
                               Reliability = DefaultReliability, LastScanned = 0, LastSeen = 0\<rparr>)
                         (allHosts hdb),
                    scanQueue :=
                       queueHostEntry
                         (Ptr \<lparr>HostDBEntry = host, FirstSeen = blockHeight hdb, Weight = 0,
                               Reliability = DefaultReliability, LastScanned = 0, LastSeen = 0\<rparr>)
                         (scanQueue hdb)\<rparr>)"
  using assms by (auto simp: insertHost_def Let_def)

text \<open>
  Whenever \<open>insertHost\<close> returns, the address was rejected or the registry now holds an
  entry for it with the candidate's key.
\<close>
lemma insertHost_result_cases:
  assumes "insertHost IsValid DefaultReliability queueHostEntry hdb host = Inr hdb1"
  shows "(\<exists>err. IsValid (NetAddress host) = Some err) \<or>
         (\<exists>knownHost. fmlookup (allHosts hdb1) (NetAddress host) = Some (Ptr knownHost) \<and>
            Key (PublicKey host) = Key (PublicKey (HostDBEntry knownHost)))"
  using assms
  by (auto simp: insertHost_def Let_def split: option.splits ptr.splits if_splits)

subsection \<open>insertHost\<close>

text \<open>
  C1. Inserting a host whose address is already bound to an entry with the same public key
  changes nothing in the registry: \<open>allHosts\<close> (and with it the entry's \<open>FirstSeen\<close> and
  \<open>Reliability\<close>), the active set and the scan queue are as before, and when the address
  passes the validator the whole database is as before. Hence, from any database, a second
  insertion of the same candidate leaves the registry and the queue as the first one left
  them.
\<close>
theorem insertHost_same_key_noop:
  "(\<forall>knownHost.
      fmlookup (allHosts hdb) (NetAddress host) = Some (Ptr knownHost) \<and>
      Key (PublicKey host) = Key (PublicKey (HostDBEntry knownHost)) \<longrightarrow>
      (\<exists>hdb'. insertHost IsValid DefaultReliability queueHostEntry hdb host = Inr hdb' \<and>
         allHosts hdb' = allHosts hdb \<and> scanQueue hdb' = scanQueue hdb \<and>
         activeHosts hdb' = activeHosts hdb \<and>
         (IsValid (NetAddress host) = None \<longrightarrow> hdb' = hdb))) \<and>
   (\<forall>hdb1.
      insertHost IsValid DefaultReliability queueHostEntry hdb host = Inr hdb1 \<longrightarrow>
      (\<exists>hdb2. insertHost IsValid DefaultReliability queueHostEntry hdb1 host = Inr hdb2 \<and>
         allHosts hdb2 = allHosts hdb1 \<and> scanQueue hdb2 = scanQueue hdb1 \<and>
         activeHosts hdb2 = activeHosts hdb1 \<and>
         (IsValid (NetAddress host) = None \<longrightarrow> hdb2 = hdb1)))"
proof (intro conjI allI impI)
  fix knownHost
  assume "fmlookup (allHosts hdb) (NetAddress host) = Some (Ptr knownHost) \<and>
          Key (PublicKey host) = Key (PublicKey (HostDBEntry knownHost))"
  then show "\<exists>hdb'. insertHost IsValid DefaultReliability queueHostEntry hdb host = Inr hdb' \<and>
         allHosts hdb' = allHosts hdb \<and> scanQueue hdb' = scanQueue hdb \<and>
         activeHosts hdb' = activeHosts hdb \<and>
         (IsValid (NetAddress host) = None \<longrightarrow> hdb' = hdb)"
    by (cases "IsValid (NetAddress host)") (simp_all add: insertHost_known_equal)
next
  fix hdb1
  assume "insertHost IsValid DefaultReliability queueHostEntry hdb host = Inr hdb1"
  from insertHost_result_cases [OF this]
  show "\<exists>hdb2. insertHost IsValid DefaultReliability queueHostEntry hdb1 host = Inr hdb2 \<and>
         allHosts hdb2 = allHosts hdb1 \<and> scanQueue hdb2 = scanQueue hdb1 \<and>
         activeHosts hdb2 = activeHosts hdb1 \<and>
         (IsValid (NetAddress host) = None \<longrightarrow> hdb2 = hdb1)"
  proof
    assume "\<exists>err. IsValid (NetAddress host) = Some err"
    then show ?thesis by (auto simp: insertHost_def)
  next
    assume "\<exists>knownHost. fmlookup (allHosts hdb1) (NetAddress host) = Some (Ptr knownHost) \<and>
              Key (PublicKey host) = Key (PublicKey (HostDBEntry knownHost))"
    then show ?thesis
      by (cases "IsValid (NetAddress host)") (auto simp: insertHost_known_equal)
  qed
qed

theorem insertHost_same_key_noop_witness:
  "fmlookup (allHosts ex_hdb) (NetAddress ex_host) = Some (Ptr ex_entry) \<and>
   Key (PublicKey ex_host) = Key (PublicKey (HostDBEntry ex_entry)) \<and>
   insertHost ex_IsValid 25 (#) ex_hdb ex_host = Inr ex_hdb \<and>
   (\<exists>hdb1. insertHost ex_IsValid 25 (#) ex_hdb ex_host_new = Inr hdb1 \<and>
       insertHost ex_IsValid 25 (#) hdb1 ex_host_new = Inr hdb1)"
proof -
  have a: "fmlookup (allHosts ex_hdb) (NetAddress ex_host) = Some (Ptr ex_entry)"
    by (simp add: ex_hdb_def ex_host_def)
  have b: "Key (PublicKey ex_host) = Key (PublicKey (HostDBEntry ex_entry))"
    by (simp add: ex_entry_def)
  have v: "ex_IsValid (NetAddress ex_host) = None" "ex_IsValid (NetAddress ex_host_new) = None"
    by (simp_all add: ex_IsValid_def ex_host_def ex_host_new_def)
  have c: "\<exists>hdb1. insertHost ex_IsValid 25 (#) ex_hdb ex_host_new = Inr hdb1"
    by (simp add: insertHost_def ex_IsValid_def ex_hdb_def ex_host_new_def Let_def)
  from a b v c
    insertHost_same_key_noop [of ex_hdb ex_host ex_IsValid 25 "(#)"]
    insertHost_same_key_noop [of ex_hdb ex_host_new ex_IsValid 25 "(#)"]
  show ?thesis by auto
qed

text \<open>
  C2. When the validator rejects the candidate's address, \<open>insertHost\<close> returns normally
  and has changed neither the registry, nor the active set, nor the scan queue (nor the
  sampler's tree or the block height): all it did was one \<open>Debugf\<close> call. The Go function
  has no result, so nothing reaches the caller.
\<close>
theorem insertHost_invalid_address:
  assumes "IsValid (NetAddress host) = Some err"
  shows "\<exists>hdb'. insertHost IsValid DefaultReliability queueHostEntry hdb host = Inr hdb' \<and>
           allHosts hdb' = allHosts hdb \<and> activeHosts hdb' = activeHosts hdb \<and>
           hostTree hdb' = hostTree hdb \<and> scanQueue hdb' = scanQueue hdb \<and>
           blockHeight hdb' = blockHeight hdb \<and>
           log hdb' = log hdb @
             [Debugf ''WARN: host '%v' has an invalid NetAddress: %v'' [NetAddress host, err]]"
  using assms by (simp add: insertHost_def)

theorem insertHost_invalid_address_witness:
  "ex_IsValid (NetAddress ex_host_invalid) = Some ''missing port in address'' \<and>
   (\<exists>hdb'. insertHost ex_IsValid 25 (#) ex_hdb ex_host_invalid = Inr hdb' \<and>
      allHosts hdb' = allHosts ex_hdb \<and> activeHosts hdb' = activeHosts ex_hdb \<and>
      scanQueue hdb' = [])"
proof -
  have a: "ex_IsValid (NetAddress ex_host_invalid) = Some ''missing port in address''"
    by (simp add: ex_IsValid_def ex_host_invalid_def)
  have q: "scanQueue ex_hdb = []"
    by (simp add: ex_hdb_def)
  from insertHost_invalid_address
         [where IsValid = ex_IsValid and host = ex_host_invalid and hdb = ex_hdb
            and DefaultReliability = 25 and queueHostEntry = "(#)", OF a] a q
  show ?thesis by auto
qed

text \<open>
  C7. A candidate with a valid address that is new to the registry, or known there under a
  different public key, is stored: afterwards its address is bound to an entry whose
  \<open>FirstSeen\<close> is the current block height, whose \<open>Reliability\<close> is the default and whose
  settings are the candidate's; \<open>queueHostEntry\<close> was called once, on that entry; the
  registry has at most one address more than before.
\<close>
theorem insertHost_new_entry:
  assumes "IsValid (NetAddress host) = None"
    and "fmlookup (allHosts hdb) (NetAddress host) = None \<or>
         (\<exists>knownHost. fmlookup (allHosts hdb) (NetAddress host) = Some (Ptr knownHost) \<and>
            Key (PublicKey host) \<noteq> Key (PublicKey (HostDBEntry knownHost)))"
  shows "\<exists>hdb' h.
           insertHost IsValid DefaultReliability queueHostEntry hdb host = Inr hdb' \<and>
           fmlookup (allHosts hdb') (NetAddress host) = Some (Ptr h) \<and>
           FirstSeen h = blockHeight hdb \<and>
           Reliability h = DefaultReliability \<and>
           HostDBEntry h = host \<and>
           scanQueue hdb' = queueHostEntry (Ptr h) (scanQueue hdb) \<and>
           fcard (fmdom (allHosts hdb')) \<le> fcard (fmdom (allHosts hdb)) + 1"
proof -
  have "fcard (finsert (NetAddress host) (fmdom (allHosts hdb)))
          \<le> fcard (fmdom (allHosts hdb)) + 1"
    by (simp add: fcard_finsert_if)
  then show ?thesis
    by (simp add: insertHost_stores
                    [where IsValid = IsValid and hdb = hdb and host = host, OF assms])
qed

theorem insertHost_new_entry_witness:
  "ex_IsValid (NetAddress ex_host_new) = None \<and>
   fmlookup (allHosts ex_hdb) (NetAddress ex_host_new) = None \<and>
   (\<exists>hdb' h. insertHost ex_IsValid 25 (#) ex_hdb ex_host_new = Inr hdb' \<and>
      fmlookup (allHosts hdb') ''b.example:9982'' = Some (Ptr h) \<and>
      FirstSeen h = 9 \<and> Reliability h = 25 \<and> HostDBEntry h = ex_host_new \<and>
      scanQueue hdb' = [Ptr h])"
proof -
  have a: "ex_IsValid (NetAddress ex_host_new) = None"
    by (simp add: ex_IsValid_def ex_host_new_def)
  have b: "fmlookup (allHosts ex_hdb) (NetAddress ex_host_new) = None"
    by (simp add: ex_hdb_def ex_host_new_def)
  have c: "NetAddress ex_host_new = ''b.example:9982''" "blockHeight ex_hdb = 9"
    "scanQueue ex_hdb = []"
    by (simp_all add: ex_hdb_def ex_host_new_def)
  from insertHost_new_entry
         [where IsValid = ex_IsValid and host = ex_host_new and hdb = ex_hdb
            and DefaultReliability = 25 and queueHostEntry = "(#)", OF a disjI1 [OF b]]
  show ?thesis unfolding c using a b unfolding c by auto
qed

text \<open>
  C8. A candidate with a valid address that the registry knows under a different public key
  replaces the entry: the equal-key guard does not fire, the address is bound to a new
  entry (different from the old one) with \<open>FirstSeen\<close> the current height and
  \<open>Reliability\<close> the default, the new entry goes to \<open>queueHostEntry\<close>, and the set of
  known addresses is the same.
\<close>
theorem insertHost_rebinds_changed_key:
  assumes "IsValid (NetAddress host) = None"
    and "fmlookup (allHosts hdb) (NetAddress host) = Some (Ptr knownHost)"
    and "Key (PublicKey host) \<noteq> Key (PublicKey (HostDBEntry knownHost))"
  shows "\<exists>h. h = \<lparr>HostDBEntry = host, FirstSeen = blockHeight hdb, Weight = 0,
                  Reliability = DefaultReliability, LastScanned = 0, LastSeen = 0\<rparr> \<and>
           h \<noteq> knownHost \<and>
           insertHost IsValid DefaultReliability queueHostEntry hdb host =
             Inr (hdb\<lparr>allHosts := fmupd (NetAddress host) (Ptr h) (allHosts hdb),
                      scanQueue := queueHostEntry (Ptr h) (scanQueue hdb)\<rparr>) \<and>
           fmdom (fmupd (NetAddress host) (Ptr h) (allHosts hdb)) = fmdom (allHosts hdb)"
proof -
  have known: "fmlookup (allHosts hdb) (NetAddress host) = None \<or>
         (\<exists>knownHost. fmlookup (allHosts hdb) (NetAddress host) = Some (Ptr knownHost) \<and>
            Key (PublicKey host) \<noteq> Key (PublicKey (HostDBEntry knownHost)))"
    using assms(2,3) by blast
  have "NetAddress host |\<in>| fmdom (allHosts hdb)"
    using assms(2) by (simp add: fmlookup_dom_iff)
  then have "finsert (NetAddress host) (fmdom (allHosts hdb)) = fmdom (allHosts hdb)"
    by auto
  moreover have "\<lparr>HostDBEntry = host, FirstSeen = blockHeight hdb, Weight = 0,
                  Reliability = DefaultReliability, LastScanned = 0, LastSeen = 0\<rparr> \<noteq> knownHost"
    using assms(3) by auto
  ultimately show ?thesis
    by (simp add: insertHost_stores
                    [where IsValid = IsValid and hdb = hdb and host = host, OF assms(1) known])
qed

theorem insertHost_rebinds_changed_key_witness:
  "ex_IsValid (NetAddress ex_host_rekeyed) = None \<and>
   fmlookup (allHosts ex_hdb) (NetAddress ex_host_rekeyed) = Some (Ptr ex_entry) \<and>
   Key (PublicKey ex_host_rekeyed) \<noteq> Key (PublicKey (HostDBEntry ex_entry)) \<and>
   insertHost ex_IsValid 25 (#) ex_hdb ex_host_rekeyed =
     Inr (ex_hdb\<lparr>allHosts :=
                    fmupd ''a.example:9982''
                      (Ptr \<lparr>HostDBEntry = ex_host_rekeyed, FirstSeen = 9, Weight = 0,
                            Reliability = 25, LastScanned = 0, LastSeen = 0\<rparr>)
                      (allHosts ex_hdb),
                  scanQueue :=
                    [Ptr \<lparr>HostDBEntry = ex_host_rekeyed, FirstSeen = 9, Weight = 0,
                          Reliability = 25, LastScanned = 0, LastSeen = 0\<rparr>]\<rparr>)"
proof -
  have a: "ex_IsValid (NetAddress ex_host_rekeyed) = None"
    by (simp add: ex_IsValid_def ex_host_rekeyed_def)
  have b: "fmlookup (allHosts ex_hdb) (NetAddress ex_host_rekeyed) = Some (Ptr ex_entry)"
    by (simp add: ex_hdb_def ex_host_rekeyed_def)
  have k: "Key (PublicKey ex_host_rekeyed) \<noteq> Key (PublicKey (HostDBEntry ex_entry))"
    by (simp add: ex_host_rekeyed_def ex_entry_def ex_host_def)
  have c: "NetAddress ex_host_rekeyed = ''a.example:9982''" "blockHeight ex_hdb = 9"
    "scanQueue ex_hdb = []"
    by (simp_all add: ex_hdb_def ex_host_rekeyed_def)
  from insertHost_rebinds_changed_key
         [where IsValid = ex_IsValid and host = ex_host_rekeyed and hdb = ex_hdb
            and DefaultReliability = 25 and queueHostEntry = "(#)", OF a b k]
  show ?thesis unfolding c using a b k unfolding c by auto
qed

subsection \<open>removeHost and Host\<close>

text \<open>
  C6. \<open>removeHost\<close> returns the nil error from every database and for every address: it
  drops the address from the active set, after \<open>removeNode\<close> on its node when it was
  there, and drops it from \<open>allHosts\<close>. A second removal changes nothing more, and
  afterwards \<open>Host\<close> does not find the address and the active set does not hold it.
\<close>
theorem removeHost_total:
  "removeHost removeNode hdb addr =
     (None, hdb\<lparr>hostTree := (case fmlookup (activeHosts hdb) addr of
                               None \<Rightarrow> hostTree hdb
                             | Some node \<Rightarrow> removeNode node (hostTree hdb)),
                activeHosts := fmdrop addr (activeHosts hdb),
                allHosts := fmdrop addr (allHosts hdb)\<rparr>) \<and>
   removeHost removeNode (snd (removeHost removeNode hdb addr)) addr =
     removeHost removeNode hdb addr \<and>
   Host (snd (removeHost removeNode hdb addr)) addr = (zeroHostDBEntry, False) \<and>
   fmlookup (activeHosts (snd (removeHost removeNode hdb addr))) addr = None"
  by (cases "fmlookup (activeHosts hdb) addr")
     (simp_all add: removeHost_def Host_def fmdrop_absent)

theorem removeHost_total_witness:
  "removeHost removeAll ex_hdb ''a.example:9982'' =
     (None, ex_hdb\<lparr>hostTree := [], activeHosts := fmempty, allHosts := fmempty\<rparr>) \<and>
   removeHost removeAll ex_hdb ''b.example:9982'' = (None, ex_hdb)"
proof -
  have a: "fmlookup (activeHosts ex_hdb) ''a.example:9982'' = Some 1"
    "fmlookup (activeHosts ex_hdb) ''b.example:9982'' = None"
    "fmdrop ''a.example:9982'' (activeHosts ex_hdb) = fmempty"
    "fmdrop ''a.example:9982'' (allHosts ex_hdb) = fmempty"
    "fmdrop ''b.example:9982'' (activeHosts ex_hdb) = activeHosts ex_hdb"
    "fmdrop ''b.example:9982'' (allHosts ex_hdb) = allHosts ex_hdb"
    "hostTree ex_hdb = [1]"
    by (simp_all add: ex_hdb_def fmdrop_fmupd fmdrop_absent)
  from removeHost_total [of removeAll ex_hdb "''a.example:9982''"]
       removeHost_total [of removeAll ex_hdb "''b.example:9982''"]
  show ?thesis by (simp add: a)
qed

text \<open>
  C10. \<open>Host\<close> returns the zero entry and false when the address is absent from
  \<open>allHosts\<close> and also when it is bound to a nil pointer; it returns the stored entry's
  \<open>HostDBEntry\<close> and true when it is bound to an entry, and in no other case is the flag
  true. The function has no panicking outcome.
\<close>
theorem Host_found_iff:
  "(fmlookup (allHosts hdb) addr = None \<or> fmlookup (allHosts hdb) addr = Some NilPtr \<longrightarrow>
      Host hdb addr = (zeroHostDBEntry, False)) \<and>
   (\<forall>entry. fmlookup (allHosts hdb) addr = Some (Ptr entry) \<longrightarrow>
      Host hdb addr = (HostDBEntry entry, True)) \<and>
   (snd (Host hdb addr) \<longleftrightarrow> (\<exists>entry. fmlookup (allHosts hdb) addr = Some (Ptr entry)))"
  by (auto simp: Host_def split: option.splits ptr.splits)

theorem Host_found_iff_witness:
  "fmlookup (allHosts ex_hdb_nil) ''b.example:9982'' = None \<and>
   Host ex_hdb_nil ''b.example:9982'' = (zeroHostDBEntry, False) \<and>
   fmlookup (allHosts ex_hdb_nil) ''c.example:9982'' = Some NilPtr \<and>
   Host ex_hdb_nil ''c.example:9982'' = (zeroHostDBEntry, False) \<and>
   fmlookup (allHosts ex_hdb_nil) ''a.example:9982'' = Some (Ptr ex_entry) \<and>
   Host ex_hdb_nil ''a.example:9982'' = (ex_host, True)"
proof -
  have a: "fmlookup (allHosts ex_hdb_nil) ''b.example:9982'' = None"
    "fmlookup (allHosts ex_hdb_nil) ''c.example:9982'' = Some NilPtr"
    "fmlookup (allHosts ex_hdb_nil) ''a.example:9982'' = Some (Ptr ex_entry)"
    "HostDBEntry ex_entry = ex_host"
    by (simp_all add: ex_hdb_nil_def ex_hdb_def ex_entry_def)
  from Host_found_iff [of ex_hdb_nil "''b.example:9982''"]
       Host_found_iff [of ex_hdb_nil "''c.example:9982''"]
       Host_found_iff [of ex_hdb_nil "''a.example:9982''"]
  show ?thesis by (simp add: a)
qed

subsection \<open>ActiveHosts and AverageContractPrice\<close>

text \<open>
  C9. \<open>ActiveHosts\<close> is \<open>RandomHosts\<close> asked for as many hosts as the active set has
  addresses, with no exclusions, on the database as \<open>ActiveHosts\<close> found it: it returns
  what that call returns.
\<close>
theorem ActiveHosts_is_RandomHosts:
  "ActiveHosts RandomHosts hdb =
     RandomHosts (int (fcard (fmdom (activeHosts hdb)))) [] hdb"
  by (simp add: ActiveHosts_def)

theorem ActiveHosts_is_RandomHosts_witness:
  "ActiveHosts ex_RandomHosts ex_hdb = ([ex_host], ex_hdb)"
proof -
  have "fcard (fmdom (activeHosts ex_hdb)) = 1"
    by (simp add: ex_hdb_def fcard_finsert_if)
  with ActiveHosts_is_RandomHosts [of ex_RandomHosts ex_hdb]
  show ?thesis by (simp add: ex_RandomHosts_def)
qed

text \<open>
  C5. \<open>AverageContractPrice\<close> asks \<open>RandomHosts\<close> for 18 hosts with no exclusions. With
  an empty sample it returns the zero price; otherwise it returns the sum of the sampled
  contract prices divided by the length of the sample. In neither case does it panic: the
  division is only reached with a divisor that is not zero. (The length of a Go slice fits
  an \<open>int\<close>, which is the second assumption.)
\<close>
theorem AverageContractPrice_mean:
  assumes "RandomHosts 18 [] hdb = (hosts, hdb')" and "length hosts < 2 ^ 63"
  shows "AverageContractPrice RandomHosts hdb =
           Inr (if hosts = [] then 0 else sum_list (map ContractPrice hosts) div length hosts, hdb')"
proof (cases "hosts = []")
  case True
  with assms(1) show ?thesis by (simp add: AverageContractPrice_def)
next
  case False
  then have "0 < length hosts" by simp
  then have "Div64 (sum_list (map ContractPrice hosts)) (word_of_nat (length hosts)) =
               Inr (sum_list (map ContractPrice hosts) div length hosts)"
    using assms(2) by (rule Div64_length)
  with False assms(1) show ?thesis
    by (simp add: AverageContractPrice_def fold_Add_acc)
qed

theorem AverageContractPrice_mean_witness:
  "ex_RandomHosts 18 [] ex_hdb = ([ex_host, ex_host_new], ex_hdb) \<and>
   length [ex_host, ex_host_new] < 2 ^ 63 \<and>
   AverageContractPrice ex_RandomHosts ex_hdb = Inr (20, ex_hdb) \<and>
   AverageContractPrice (\<lambda>n exclude hdb. ([], hdb)) ex_hdb = Inr (0, ex_hdb)"
proof -
  have a: "ex_RandomHosts 18 [] ex_hdb = ([ex_host, ex_host_new], ex_hdb)"
    by (simp add: ex_RandomHosts_def)
  have b: "length [ex_host, ex_host_new] < 2 ^ 63" by simp
  have c: "(\<lambda>n exclude hdb. ([], hdb)) 18 [] ex_hdb = ([] :: modules_HostDBEntry list, ex_hdb)"
    by simp
  have d: "length ([] :: modules_HostDBEntry list) < 2 ^ 63" by simp
  from AverageContractPrice_mean [where RandomHosts = ex_RandomHosts and hdb = ex_hdb, OF a b]
       AverageContractPrice_mean [where RandomHosts = "\<lambda>n exclude hdb. ([], hdb)" and hdb = ex_hdb,
                                  OF c d] a b
  show ?thesis by (simp add: ex_host_def ex_host_new_def numeral_2_eq_2 [symmetric])
qed

subsection \<open>IsOffline\<close>

text \<open>
  C3. For an entry of the registry whose last scan is at most the threshold (three days)
  old, \<open>IsOffline\<close> does not scan: whatever \<open>managedScanHost\<close> would do, the database
  is returned as it was. The answer is true exactly when more than the threshold has
  passed since the entry's \<open>LastSeen\<close>; so an entry seen within the window is not
  offline, and one scanned but not seen within it is.
\<close>
theorem IsOffline_recently_scanned:
  assumes "fmlookup (allHosts hdb) addr = Some (Ptr entry)"
    and "now1 - LastScanned entry \<le> uptimeThreshold"
  shows "IsOffline managedScanHost now1 now2 hdb addr =
           Inr (uptimeThreshold < now2 - LastSeen entry, hdb)"
  using assms by (simp add: IsOffline_def Since_gt_uptimeThreshold)

theorem IsOffline_recently_scanned_witness:
  "fmlookup (allHosts ex_hdb) ''a.example:9982'' = Some (Ptr ex_entry) \<and>
   200 - LastScanned ex_entry \<le> uptimeThreshold \<and>
   IsOffline ex_scan_removed 200 200 ex_hdb ''a.example:9982'' = Inr (False, ex_hdb) \<and>
   IsOffline ex_scan_removed 200 300000000000000 ex_hdb ''a.example:9982'' = Inr (True, ex_hdb)"
proof -
  have a: "fmlookup (allHosts ex_hdb) ''a.example:9982'' = Some (Ptr ex_entry)"
    by (simp add: ex_hdb_def)
  have b: "200 - LastScanned ex_entry \<le> uptimeThreshold"
    by (simp add: ex_entry_def uptimeThreshold_def)
  have c: "\<not> uptimeThreshold < 200 - LastSeen ex_entry"
    "uptimeThreshold < 300000000000000 - LastSeen ex_entry"
    by (simp_all add: ex_entry_def uptimeThreshold_def)
  from IsOffline_recently_scanned [OF a b, of ex_scan_removed 200]
       IsOffline_recently_scanned [OF a b, of ex_scan_removed 300000000000000] a b c
  show ?thesis by simp
qed

text \<open>
  C4. For an address that is not in \<open>allHosts\<close>, \<open>IsOffline\<close> returns false and leaves
  the database as it was, without a scan. When the entry is stale, is scanned, and the
  address is no longer in \<open>allHosts\<close> after the scan, \<open>IsOffline\<close> returns false too,
  after one \<open>Printf\<close> call on the database the scan left. Neither case panics.
\<close>
theorem IsOffline_absent:
  "(fmlookup (allHosts hdb) addr = None \<longrightarrow>
      IsOffline managedScanHost now1 now2 hdb addr = Inr (False, hdb)) \<and>
   (\<forall>entry.
      fmlookup (allHosts hdb) addr = Some (Ptr entry) \<and>
      uptimeThreshold < now1 - LastScanned entry \<and>
      fmlookup (allHosts (managedScanHost (Ptr entry) hdb)) addr = None \<longrightarrow>
      IsOffline managedScanHost now1 now2 hdb addr =
        Inr (False,
             (managedScanHost (Ptr entry) hdb)
               \<lparr>log := log (managedScanHost (Ptr entry) hdb) @
                  [Printf ''WARN: no entry in allHosts for %v immediately after scanning''
                     [addr]]\<rparr>))"
  by (simp add: IsOffline_def Since_gt_uptimeThreshold Let_def)

theorem IsOffline_absent_witness:
  "fmlookup (allHosts ex_hdb) ''b.example:9982'' = None \<and>
   IsOffline ex_scan_removed 200 200 ex_hdb ''b.example:9982'' = Inr (False, ex_hdb) \<and>
   fmlookup (allHosts ex_hdb) ''a.example:9982'' = Some (Ptr ex_entry) \<and>
   uptimeThreshold < 300000000000000 - LastScanned ex_entry \<and>
   fmlookup (allHosts (ex_scan_removed (Ptr ex_entry) ex_hdb)) ''a.example:9982'' = None \<and>
   IsOffline ex_scan_removed 300000000000000 300000000000001 ex_hdb ''a.example:9982'' =
     Inr (False,
          ex_hdb\<lparr>allHosts := fmempty,
                 log := [Printf ''WARN: no entry in allHosts for %v immediately after scanning''
                           [''a.example:9982'']]\<rparr>)"
proof -
  have a: "fmlookup (allHosts ex_hdb) ''b.example:9982'' = None"
    "fmlookup (allHosts ex_hdb) ''a.example:9982'' = Some (Ptr ex_entry)"
    by (simp_all add: ex_hdb_def)
  have b: "uptimeThreshold < 300000000000000 - LastScanned ex_entry"
    by (simp add: ex_entry_def uptimeThreshold_def)
  have c: "fmlookup (allHosts (ex_scan_removed (Ptr ex_entry) ex_hdb)) ''a.example:9982'' = None"
    by (simp add: ex_scan_removed_def)
  have d: "(ex_scan_removed (Ptr ex_entry) ex_hdb)
             \<lparr>log := log (ex_scan_removed (Ptr ex_entry) ex_hdb) @
                [Printf ''WARN: no entry in allHosts for %v immediately after scanning''
                   [''a.example:9982'']]\<rparr> =
           ex_hdb\<lparr>allHosts := fmempty,
                  log := [Printf ''WARN: no entry in allHosts for %v immediately after scanning''
                            [''a.example:9982'']]\<rparr>"
    by (simp add: ex_scan_removed_def ex_hdb_def)
  from IsOffline_absent [of ex_hdb "''b.example:9982''" ex_scan_removed 200 200]
       IsOffline_absent [of ex_hdb "''a.example:9982''" ex_scan_removed
                            300000000000000 300000000000001] a b c
  show ?thesis unfolding d [symmetric] by auto
qed

end
